theory Spec2Isabelle
  imports Complex_Main
begin

unbundle bit_operations_syntax

section \<open>Python values and failures\<close>

text \<open>
  The module \<^verbatim>\<open>hcrp/labelling.py\<close> is modelled function by function. Python exceptions
  are values of \<open>py_error\<close>; a function that can raise returns \<open>py_error + 'a\<close> with
  \<open>Inl\<close> for the exception. Coordinates and pixel intensities are Python floats in the
  source; they are modelled as real numbers. The concrete runs below use numbers that
  binary floating point represents and adds exactly; a statement about all inputs is
  about exact arithmetic and says nothing of rounding.
\<close>

datatype py_error =
    IndexError
  | AttributeError
  | TypeError
  | ValueError
  | AssertionError string
  | OSError string

text \<open>\<^verbatim>\<open>int(e)\<close> on a float truncates toward zero.\<close>

definition py_int :: "real \<Rightarrow> int" where
  "py_int e = (if 0 \<le> e then \<lfloor>e\<rfloor> else \<lceil>e\<rceil>)"

text \<open>\<^verbatim>\<open>xs[-1]\<close>: the last element, IndexError on the empty list.\<close>

definition py_last :: "'a list \<Rightarrow> py_error + 'a" where
  "py_last xs = (case xs of [] \<Rightarrow> Inl IndexError | _ # _ \<Rightarrow> Inr (last xs))"

section \<open>Arrays, slices and the mean\<close>

text \<open>
  A two-dimensional array is the list of its rows. \<^verbatim>\<open>image[y1:y2, x1:x2]\<close> follows Python's
  slice rules on each axis: a negative bound counts from the end, bounds are clipped to
  the axis, and a slice whose start is not before its stop is empty. \<^verbatim>\<open>np.mean\<close> of an
  array with no element is NaN.
\<close>

type_synonym image = "real list list"

datatype npfloat = Finite real | NaN

definition slice_index :: "int \<Rightarrow> nat \<Rightarrow> nat" where
  "slice_index i n = (if i < 0 then nat (max 0 (i + int n)) else min (nat i) n)"

definition py_slice :: "int \<Rightarrow> int \<Rightarrow> 'a list \<Rightarrow> 'a list" where
  "py_slice lo hi xs =
     (let n = length xs; a = slice_index lo n; b = slice_index hi n
      in take (b - a) (drop a xs))"

definition np_slice2 :: "image \<Rightarrow> int \<Rightarrow> int \<Rightarrow> int \<Rightarrow> int \<Rightarrow> image" where
  "np_slice2 img y1 y2 x1 x2 = map (py_slice x1 x2) (py_slice y1 y2 img)"

definition np_mean :: "image \<Rightarrow> npfloat" where
  "np_mean region =
     (let vs = concat region
      in if vs = [] then NaN else Finite (sum_list vs / real (length vs)))"

text \<open>
  \<^verbatim>\<open>ax.imshow(a)\<close> on an array of \<open>h\<close> rows and \<open>w\<close> columns leaves the axes with the limits
  \<open>-0.5 .. w - 0.5\<close> in x and \<open>-0.5 .. h - 0.5\<close> in y (each pair given in increasing order).
\<close>

definition nrows :: "image \<Rightarrow> nat" where
  "nrows a = length a"

definition ncols :: "image \<Rightarrow> nat" where
  "ncols a = (if a = [] then 0 else length (hd a))"

definition imshow_xlim :: "image \<Rightarrow> real \<times> real" where
  "imshow_xlim a = (- (1 / 2), real (ncols a) - 1 / 2)"

definition imshow_ylim :: "image \<Rightarrow> real \<times> real" where
  "imshow_ylim a = (- (1 / 2), real (nrows a) - 1 / 2)"

text \<open>The array of \<open>h\<close> rows and \<open>w\<close> columns with the value \<open>c\<close> everywhere (\<^verbatim>\<open>np.full((h, w), c)\<close>).\<close>

definition flat :: "nat \<Rightarrow> nat \<Rightarrow> real \<Rightarrow> image" where
  "flat h w c = replicate h (replicate w c)"

section \<open>The constrained selector\<close>

text \<open>
  \<^verbatim>\<open>FixedSizeRectangleSelector\<close> subclasses matplotlib's \<^verbatim>\<open>RectangleSelector\<close>. The record
  holds what the class and the inherited handlers read and write: the limits of the
  axes the selector is attached to, the extent \<open>(x0, x1, y0, y1)\<close> as the \<^verbatim>\<open>extents\<close>
  property reads it back from the rectangle, the creation switch, the two minimal spans
  given at construction, the press event (its data coordinates), the handle that was
  grabbed, the extent snapshotted at press time, whether a selection has been completed
  and whether the rectangle is visible.
\<close>

type_synonym extent = "real \<times> real \<times> real \<times> real"

record selector =
  xlim :: "real \<times> real"
  ylim :: "real \<times> real"
  extents :: extent
  allow_creation :: bool
  minspanx :: real
  minspany :: real
  eventpress :: "(real \<times> real) option"
  active_handle :: "string option"
  extents_on_press :: "extent option"
  selection_completed :: bool
  visible :: bool

definition width :: "extent \<Rightarrow> real" where
  "width e = (case e of (x0, x1, y0, y1) \<Rightarrow> x1 - x0)"

definition height :: "extent \<Rightarrow> real" where
  "height e = (case e of (x0, x1, y0, y1) \<Rightarrow> y1 - y0)"

definition shift :: "real \<Rightarrow> real \<Rightarrow> extent \<Rightarrow> extent" where
  "shift dx dy e = (case e of (x0, x1, y0, y1) \<Rightarrow> (x0 + dx, x1 + dx, y0 + dy, y1 + dy))"

text \<open>
  The inherited setter of \<^verbatim>\<open>extents\<close>, which every assignment \<^verbatim>\<open>self.extents = ...\<close> runs.
  It orders the bounds on each axis, clips them to the axes limits and gives the
  rectangle the clipped corner with the remaining width and height; the getter reads
  the corner and the opposite corner back, again in order.
\<close>

definition set_extents :: "selector \<Rightarrow> extent \<Rightarrow> selector" where
  "set_extents self e =
     (case e of (x0, x1, y0, y1) \<Rightarrow>
        (let xmin = max (fst (xlim self)) (min x0 x1);
             ymin = max (fst (ylim self)) (min y0 y1);
             xmax = min (max x0 x1) (snd (xlim self));
             ymax = min (max y0 y1) (snd (ylim self));
             w = xmax - xmin;
             h = ymax - ymin
         in self\<lparr>extents := (min xmin (xmin + w), max xmin (xmin + w),
                              min ymin (ymin + h), max ymin (ymin + h))\<rparr>))"

text \<open>
  \<^verbatim>\<open>__init__(self, ax, onselect, size, **kwargs)\<close>: the base constructor with the keyword
  arguments (of which the two minimal spans matter here), then the extent is set to
  \<open>(0, size, 0, size)\<close> through the setter, which also shows the rectangle, and creation
  of new rectangles is switched off. The axes are given by their limits.
\<close>

definition FixedSizeRectangleSelector_init ::
  "real \<times> real \<Rightarrow> real \<times> real \<Rightarrow> real \<Rightarrow> real \<Rightarrow> real \<Rightarrow> selector" where
  "FixedSizeRectangleSelector_init ax_xlim ax_ylim sz span_x span_y =
     (set_extents
        \<lparr> xlim = ax_xlim, ylim = ax_ylim,
          extents = (0, 0, 0, 0),
          allow_creation = True,
          minspanx = span_x, minspany = span_y,
          eventpress = None,
          active_handle = None,
          extents_on_press = None,
          selection_completed = False,
          visible = True \<rparr>
        (0, sz, 0, sz))\<lparr>allow_creation := False\<rparr>"

text \<open>
  \<^verbatim>\<open>_onmove(self, event)\<close>; the event is given by its data coordinates, the result of
  \<^verbatim>\<open>self._get_data_coords(event)\<close>. Reading \<^verbatim>\<open>eventpress.xdata\<close> when no press is recorded
  raises AttributeError, unpacking a missing snapshot raises TypeError. The final
  assignment to \<^verbatim>\<open>self.extents\<close> goes through the setter.
\<close>

definition FixedSizeRectangleSelector_onmove :: "selector \<Rightarrow> real \<times> real \<Rightarrow> py_error + selector" where
  "FixedSizeRectangleSelector_onmove self event =
     (let move = (active_handle self = Some ''C'');
          (xdata, ydata) = event
      in case eventpress self of
           None \<Rightarrow> Inl AttributeError
         | Some (press_xdata, press_ydata) \<Rightarrow>
             (case extents_on_press self of
                None \<Rightarrow> Inl TypeError
              | Some (x0, x1, y0, y1) \<Rightarrow>
                  if move then
                    (let dx = xdata - press_xdata;
                         dy = ydata - press_ydata
                     in Inr (set_extents self (x0 + dx, x1 + dx, y0 + dy, y1 + dy)))
                  else Inr (set_extents self (x0, x1, y0, y1))))"

subsection \<open>The host toolkit's dispatch\<close>

text \<open>
  The press and release handlers and the guard in front of \<^verbatim>\<open>_onmove\<close> are inherited
  from matplotlib. The selector is constructed with \<^verbatim>\<open>button=[1, 3]\<close>: the events below
  are those of the left and the right button, and moves while one of them is held; key
  events carry no button and never reach the selector's own handlers. A pointer event
  carries data coordinates; a pointer off the axes is given by coordinates outside the
  axes limits. A press off the axes is ignored while no press is recorded. Otherwise
  the press is recorded with its coordinates clipped to the axes; the toolkit decides
  from the pointer position and the keys held which handle (if any) is grabbed, so the
  handle is part of the event here (the centre handle \<open>C\<close> sits at the middle of the
  rectangle), and no handle is grabbed while the rectangle is hidden. With no handle
  grabbed and creation allowed the base class starts a new rectangle at the pointer,
  otherwise it shows the rectangle; then it snapshots the extent. A move reaches
  \<^verbatim>\<open>_onmove\<close> only while a press is recorded, with its coordinates clipped to the axes.
\<close>

datatype pointer_event =
    ButtonPress "string option" real real
  | MotionNotify real real
  | ButtonRelease

definition on_axes :: "selector \<Rightarrow> real \<times> real \<Rightarrow> bool" where
  "on_axes self p =
     (fst (xlim self) \<le> fst p \<and> fst p \<le> snd (xlim self) \<and>
      fst (ylim self) \<le> snd p \<and> snd p \<le> snd (ylim self))"

definition clip :: "real \<times> real \<Rightarrow> real \<Rightarrow> real" where
  "clip bounds v = max (fst bounds) (min (snd bounds) v)"

definition press :: "selector \<Rightarrow> string option \<Rightarrow> real \<times> real \<Rightarrow> selector" where
  "press self handle event =
     (if eventpress self = None \<and> \<not> on_axes self event then self
      else
        (let xdata = clip (xlim self) (fst event);
             ydata = clip (ylim self) (snd event);
             self1 = self\<lparr>eventpress := Some (xdata, ydata),
                          active_handle := (if visible self then handle else None)\<rparr>;
             self2 = (if active_handle self1 = None \<and> allow_creation self1
                      then set_extents self1 (xdata, xdata, ydata, ydata)
                      else self1\<lparr>visible := True\<rparr>)
         in self2\<lparr>extents_on_press := Some (extents self2)\<rparr>))"

definition onmove :: "selector \<Rightarrow> real \<times> real \<Rightarrow> py_error + selector" where
  "onmove self event =
     (if eventpress self = None then Inr self
      else FixedSizeRectangleSelector_onmove self
             (clip (xlim self) (fst event), clip (ylim self) (snd event)))"

text \<open>
  The release handler, reached only while a press is recorded. It measures the spans of
  the extent in data coordinates. If a span is not above its minimum, the completion
  callback is called only when a selection had been completed before, and the
  selection is cleared (not completed, hidden); otherwise the callback is called and
  the selection is completed. Then the press is forgotten. The result says whether the
  callback is called, and gives the selector after the release; the callback runs
  before the selection is cleared and reads the extent, which the release leaves as it
  is.
\<close>

definition release :: "selector \<Rightarrow> bool \<times> selector" where
  "release self =
     (case extents self of (x0, x1, y0, y1) \<Rightarrow>
        (let spanx = \<bar>x0 - x1\<bar>;
             spany = \<bar>y0 - y1\<bar>;
             small = (spanx \<le> minspanx self \<or> spany \<le> minspany self);
             calls = (if small then selection_completed self else True);
             self1 = (if small then self\<lparr>selection_completed := False, visible := False\<rparr>
                      else self\<lparr>selection_completed := True\<rparr>)
         in (calls, self1\<lparr>eventpress := None, active_handle := None,
                          extents_on_press := None\<rparr>)))"

section \<open>The observable world\<close>

text \<open>
  Effects are recorded in a world that every function takes and returns: the arrays by
  address (for the code that draws into an array in place), the OpenCV windows and the
  frames shown in them, the matplotlib figures opened (displayed image and title), the
  lines printed, and the tables written to disk. A data frame is its column names and
  its rows, each row with its index label.
\<close>

datatype index_label = Pos nat | Key string

record dataframe =
  columns :: "string list"
  rows :: "(index_label \<times> npfloat list) list"

record world =
  heap :: "image list"
  windows :: "string list"
  shown :: "(string \<times> image) list"
  figures :: "(image \<times> string) list"
  printed :: "string list"
  files :: "(string \<times> dataframe \<times> bool) list"
  dirs :: "string list"

text \<open>
  A call either returns a value in a new world, raises in the world reached so far, or
  never returns because the operator supplies no further input (\<open>Blocked\<close>).
\<close>

datatype 'a outcome = Blocked | Raised py_error world | Returned 'a world

section \<open>The region sampler\<close>

text \<open>
  The variables that the callbacks of \<^verbatim>\<open>get_mean_region\<close> close over: the selector, the
  two result lists and the axes title.
\<close>

record sampler =
  selector :: selector
  means :: "npfloat list"
  centers :: "(real \<times> real) list"
  title :: string

text \<open>\<^verbatim>\<open>onselect(eclick, erelease)\<close>; neither argument is read.\<close>

definition onselect :: "image \<Rightarrow> sampler \<Rightarrow> sampler" where
  "onselect img s =
     (case extents (selector s) of (e0, e1, e2, e3) \<Rightarrow>
        (let x1 = py_int e0; x2 = py_int e1; y1 = py_int e2; y2 = py_int e3;
             region = np_slice2 img y1 y2 x1 x2
         in s\<lparr>means := means s @ [np_mean region],
              centers := centers s @ [(real_of_int (x1 + x2) / 2, real_of_int (y1 + y2) / 2)]\<rparr>))"

text \<open>
  \<^verbatim>\<open>reset(event)\<close>, connected to key presses; \<open>key\<close> is \<^verbatim>\<open>event.key\<close>. The extent is assigned
  through the setter.
\<close>

definition reset :: "string \<Rightarrow> real \<Rightarrow> sampler \<Rightarrow> string \<Rightarrow> sampler" where
  "reset name sz s key =
     (if key = ''r'' then
        s\<lparr>means := [],
          selector := set_extents (selector s) (0, sz, 0, sz),
          title := ''Select a region of interest for '' @ name\<rparr>
      else s)"

text \<open>
  \<^verbatim>\<open>plt.show()\<close> hands control to the event loop until the window is closed. A session is
  the list of events up to the close. The toolkit hands pointer events to the selector,
  calls \<^verbatim>\<open>onselect\<close> when the release handler says so, and calls \<^verbatim>\<open>reset\<close> on every key
  press.
\<close>

datatype gui_event = Pointer pointer_event | KeyPress string

fun dispatch :: "image \<Rightarrow> string \<Rightarrow> real \<Rightarrow> sampler \<Rightarrow> gui_event \<Rightarrow> py_error + sampler" where
  "dispatch img name sz s (KeyPress key) = Inr (reset name sz s key)"
| "dispatch img name sz s (Pointer (ButtonPress handle x y)) =
     Inr (s\<lparr>selector := press (selector s) handle (x, y)\<rparr>)"
| "dispatch img name sz s (Pointer (MotionNotify x y)) =
     (case onmove (selector s) (x, y) of
        Inl e \<Rightarrow> Inl e
      | Inr sel \<Rightarrow> Inr (s\<lparr>selector := sel\<rparr>))"
| "dispatch img name sz s (Pointer ButtonRelease) =
     (if eventpress (selector s) = None then Inr s
      else
        (case release (selector s) of (calls, sel) \<Rightarrow>
           Inr ((if calls then onselect img s else s)\<lparr>selector := sel\<rparr>)))"

fun plt_show :: "image \<Rightarrow> string \<Rightarrow> real \<Rightarrow> sampler \<Rightarrow> gui_event list \<Rightarrow> py_error + sampler" where
  "plt_show img name sz s [] = Inr s"
| "plt_show img name sz s (ev # evs) =
     (case dispatch img name sz s ev of
        Inl e \<Rightarrow> Inl e
      | Inr s' \<Rightarrow> plt_show img name sz s' evs)"

text \<open>
  The state in which \<^verbatim>\<open>get_mean_region\<close> enters the event loop: the displayed image fixes
  the axes limits, and the selector is constructed with \<^verbatim>\<open>minspanx=5, minspany=5\<close>.
\<close>

definition new_session :: "image \<Rightarrow> string \<Rightarrow> real \<Rightarrow> sampler" where
  "new_session high_contrast name sz =
     \<lparr> selector = FixedSizeRectangleSelector_init (imshow_xlim high_contrast)
                    (imshow_ylim high_contrast) sz 5 5,
       means = [], centers = [], title = name \<rparr>"

text \<open>
  \<^verbatim>\<open>get_mean_region(image, high_contrast, name, size, vmax)\<close>. The operator's future
  sessions are the list argument: the first is the one this call shows, the rest are
  left for later calls and returned with the result. The \<^verbatim>\<open>try\<close> block reads the last
  element of both lists; IndexError from either read prints the notice and calls the
  function again, with the display image already defaulted.
\<close>

fun get_mean_region ::
  "image \<Rightarrow> image option \<Rightarrow> string \<Rightarrow> real \<Rightarrow> real option \<Rightarrow> gui_event list list \<Rightarrow> world \<Rightarrow>
     ((npfloat \<times> real \<times> real) \<times> gui_event list list) outcome" where
  "get_mean_region img high_contrast name sz vmax [] w = Blocked"
| "get_mean_region img high_contrast name sz vmax (events # later) w =
     (let high_contrast1 = (case high_contrast of None \<Rightarrow> img | Some h \<Rightarrow> h);
          w1 = w\<lparr>figures := figures w @ [(high_contrast1, name)]\<rparr>
      in case plt_show img name sz (new_session high_contrast1 name sz) events of
           Inl e \<Rightarrow> Raised e w1
         | Inr s \<Rightarrow>
             (case py_last (means s) of
                Inr m \<Rightarrow>
                  (case py_last (centers s) of
                     Inr c \<Rightarrow> Returned ((m, c), later) w1
                   | Inl IndexError \<Rightarrow>
                       get_mean_region img (Some high_contrast1) name sz vmax later
                         (w1\<lparr>printed := printed w1 @ [''No region selected.'']\<rparr>)
                   | Inl e \<Rightarrow> Raised e w1)
              | Inl IndexError \<Rightarrow>
                  get_mean_region img (Some high_contrast1) name sz vmax later
                    (w1\<lparr>printed := printed w1 @ [''No region selected.'']\<rparr>)
              | Inl e \<Rightarrow> Raised e w1))"

text \<open>
  The image a call displays, the pair that \<^verbatim>\<open>onselect\<close> records for an extent, and what
  holds of a sampler throughout a session: a recorded press has its snapshot, and
  whenever a mean is recorded, a center is recorded too and the last mean and the last
  center come from one extent.
\<close>

definition display :: "image \<Rightarrow> image option \<Rightarrow> image" where
  "display img high_contrast = (case high_contrast of None \<Rightarrow> img | Some h \<Rightarrow> h)"

definition sample_at :: "image \<Rightarrow> extent \<Rightarrow> npfloat \<times> real \<times> real" where
  "sample_at img e =
     (case e of (e0, e1, e2, e3) \<Rightarrow>
        (np_mean (np_slice2 img (py_int e2) (py_int e3) (py_int e0) (py_int e1)),
         real_of_int (py_int e0 + py_int e1) / 2, real_of_int (py_int e2 + py_int e3) / 2))"

definition paired :: "image \<Rightarrow> sampler \<Rightarrow> bool" where
  "paired img s =
     (means s = [] \<or>
      (centers s \<noteq> [] \<and> (\<exists>e. (last (means s), last (centers s)) = sample_at img e)))"

definition snapshot_ok :: "selector \<Rightarrow> bool" where
  "snapshot_ok self = (eventpress self = None \<or> extents_on_press self \<noteq> None)"

definition session_inv :: "image \<Rightarrow> sampler \<Rightarrow> bool" where
  "session_inv img s = (snapshot_ok (selector s) \<and> paired img s)"

text \<open>The world before anything has happened.\<close>

definition world0 :: world where
  "world0 = \<lparr> heap = [], windows = [], shown = [], figures = [], printed = [], files = [], dirs = [] \<rparr>"

section \<open>The point collector\<close>

text \<open>
  The OpenCV functions that the module calls on arrays are parameters: histogram
  equalisation and the two drawing primitives, each given as the array it produces
  from the array it is applied to. In the source the drawing primitives write into
  their first argument; the model stores their result at that argument's address.
\<close>

type_synonym point = "int \<times> int"

record cv2 =
  equalizeHist :: "image \<Rightarrow> image"
  circle :: "image \<Rightarrow> point \<Rightarrow> int \<Rightarrow> int \<times> int \<times> int \<Rightarrow> int \<Rightarrow> image"
  line :: "image \<Rightarrow> point \<Rightarrow> point \<Rightarrow> int \<times> int \<times> int \<Rightarrow> int \<Rightarrow> image"

definition EVENT_LBUTTONDOWN :: int where
  "EVENT_LBUTTONDOWN = 1"

text \<open>
  A new array object gets the next free address. \<^verbatim>\<open>(a / 256).astype(np.uint8)\<close> divides
  each element, truncates it and keeps the low eight bits.
\<close>

definition alloc :: "image \<Rightarrow> world \<Rightarrow> nat \<times> world" where
  "alloc a w = (length (heap w), w\<lparr>heap := heap w @ [a]\<rparr>)"

definition astype_uint8 :: "image \<Rightarrow> image" where
  "astype_uint8 a = map (map (\<lambda>v. real_of_int (py_int v mod 256))) a"

definition true_divide :: "image \<Rightarrow> real \<Rightarrow> image" where
  "true_divide a d = map (map (\<lambda>v. v / d)) a"

text \<open>
  \<^verbatim>\<open>mouse_callback(event, x, y, flags, param)\<close>, closed over the point list, the window
  name and the display buffer (here its address).
\<close>

definition mouse_callback ::
  "cv2 \<Rightarrow> string \<Rightarrow> nat \<Rightarrow> point list \<Rightarrow> int \<Rightarrow> int \<Rightarrow> int \<Rightarrow> int \<Rightarrow> world \<Rightarrow> point list \<times> world" where
  "mouse_callback cv window_name image_with_roi_equalized roi_points event x y flags w =
     (if event = EVENT_LBUTTONDOWN then
        (let roi_points1 = roi_points @ [(x, y)];
             buf = image_with_roi_equalized;
             w1 = w\<lparr>heap := (heap w)[buf := circle cv (heap w ! buf) (x, y) 3 (0, 0, 255) (- 1)]\<rparr>;
             w2 = (if length roi_points1 > 1 then
                     w1\<lparr>heap := (heap w1)[buf := line cv (heap w1 ! buf)
                                     (roi_points1 ! (length roi_points1 - 2))
                                     (roi_points1 ! (length roi_points1 - 1))
                                     (0, 0, 255) 2]\<rparr>
                   else w1)
         in (roi_points1, w2\<lparr>shown := shown w2 @ [(window_name, heap w2 ! buf)]\<rparr>))
      else (roi_points, w))"

text \<open>
  The loop \<^verbatim>\<open>while True: key = cv2.waitKey(1) & 0xFF\<close>. What the operator does is a list of
  inputs: a mouse event, which the toolkit hands to the callback during a wait, or the
  key code that a call of \<^verbatim>\<open>waitKey\<close> returns (\<open>-1\<close> when no key is down). The loop ends on
  a key whose low byte is \<^verbatim>\<open>ord("q")\<close>; with no input left it waits forever.
\<close>

datatype cv_input = Mouse int int int int | WaitKey int

definition quits :: "int \<Rightarrow> bool" where
  "quits key = (key AND 0xFF = of_char CHR ''q'')"

fun wait_loop ::
  "cv2 \<Rightarrow> string \<Rightarrow> nat \<Rightarrow> point list \<Rightarrow> cv_input list \<Rightarrow> world \<Rightarrow>
     (point list \<times> cv_input list) outcome" where
  "wait_loop cv window_name buf roi_points [] w = Blocked"
| "wait_loop cv window_name buf roi_points (Mouse event x y flags # rest) w =
     (case mouse_callback cv window_name buf roi_points event x y flags w of
        (roi_points1, w1) \<Rightarrow> wait_loop cv window_name buf roi_points1 rest w1)"
| "wait_loop cv window_name buf roi_points (WaitKey key # rest) w =
     (if quits key then Returned (roi_points, rest) w
      else wait_loop cv window_name buf roi_points rest w)"

text \<open>
  \<^verbatim>\<open>get_spline(image, name, window_name=None)\<close>; \<open>image\<close> is the address of the caller's
  array. The inputs not consumed are returned with the points.
\<close>

definition get_spline ::
  "cv2 \<Rightarrow> nat \<Rightarrow> string \<Rightarrow> string option \<Rightarrow> cv_input list \<Rightarrow> world \<Rightarrow>
     (point list \<times> cv_input list) outcome" where
  "get_spline cv img name window_name inputs w =
     (case alloc (heap w ! img) w of (image_with_roi, w1) \<Rightarrow>
      case alloc (true_divide (heap w1 ! image_with_roi) 256) w1 of (scaled, w2) \<Rightarrow>
      case alloc (astype_uint8 (heap w2 ! scaled)) w2 of (img8bit, w3) \<Rightarrow>
      case alloc (equalizeHist cv (heap w3 ! img8bit)) w3 of (image_with_roi_equalized, w4) \<Rightarrow>
        (let window_name1 = (case window_name of
                               None \<Rightarrow> ''Manually input Spline for '' @ name
                             | Some t \<Rightarrow> t);
             w5 = w4\<lparr>windows := windows w4 @ [window_name1]\<rparr>;
             w6 = w5\<lparr>shown := shown w5 @ [(window_name1, heap w5 ! image_with_roi_equalized)]\<rparr>
         in case wait_loop cv window_name1 image_with_roi_equalized [] inputs w6 of
              Blocked \<Rightarrow> Blocked
            | Raised e w7 \<Rightarrow> Raised e w7
            | Returned r w7 \<Rightarrow> Returned r (w7\<lparr>windows := []\<rparr>)))"

text \<open>\<^verbatim>\<open>get_contour(image, name)\<close>.\<close>

definition get_contour ::
  "cv2 \<Rightarrow> nat \<Rightarrow> string \<Rightarrow> cv_input list \<Rightarrow> world \<Rightarrow> (point list \<times> cv_input list) outcome" where
  "get_contour cv img name inputs w =
     get_spline cv img name (Some (''Manually input Contour for '' @ name)) inputs w"

text \<open>
  For stating results: the value a call returns, if it returns; the coordinates of the
  left-button-down events in a list of inputs, in order; and a left click as an input.
\<close>

definition returned :: "'a outcome \<Rightarrow> 'a option" where
  "returned r = (case r of Returned v w \<Rightarrow> Some v | _ \<Rightarrow> None)"

fun clicks :: "cv_input list \<Rightarrow> point list" where
  "clicks [] = []"
| "clicks (Mouse event x y flags # rest) =
     (if event = EVENT_LBUTTONDOWN then (x, y) # clicks rest else clicks rest)"
| "clicks (WaitKey key # rest) = clicks rest"

fun no_quit :: "cv_input list \<Rightarrow> bool" where
  "no_quit [] = True"
| "no_quit (Mouse event x y flags # rest) = no_quit rest"
| "no_quit (WaitKey key # rest) = (\<not> quits key \<and> no_quit rest)"

definition left_click :: "point \<Rightarrow> cv_input" where
  "left_click p = Mouse EVENT_LBUTTONDOWN (fst p) (snd p) 0"

text \<open>
  What the loop returns as a function of the operator's inputs alone: the points
  clicked before the first quitting key, and the inputs after that key.
\<close>

fun collect :: "point list \<Rightarrow> cv_input list \<Rightarrow> (point list \<times> cv_input list) option" where
  "collect pts [] = None"
| "collect pts (Mouse event x y flags # rest) =
     collect (if event = EVENT_LBUTTONDOWN then pts @ [(x, y)] else pts) rest"
| "collect pts (WaitKey key # rest) = (if quits key then Some (pts, rest) else collect pts rest)"

text \<open>A stand-in for the OpenCV functions, to run the collector on concrete input.\<close>

definition cv0 :: cv2 where
  "cv0 = \<lparr> equalizeHist = (\<lambda>a. a),
           circle = (\<lambda>a p r c t. map (map (\<lambda>v. 0)) a),
           line = (\<lambda>a p q c t. a) \<rparr>"

section \<open>Labelling one image and a folder\<close>

text \<open>
  An image stack is indexed \<^verbatim>\<open>[z, y, x, channel]\<close> in the source; here it is the list of its
  layers, each layer the list of its channel planes, so that \<open>np_plane stack z c\<close> is
  \<^verbatim>\<open>stack[z, :, :, c]\<close>, with numpy's index check on both axes. What the module takes from
  the file system, the clock and the image reader is a record of functions; a file
  that cannot be read makes \<^verbatim>\<open>imread\<close> raise. Of the failures inside pandas, the two
  ValueErrors that the arguments of \<^verbatim>\<open>label\<close> can cause are modelled; failures while
  writing files are not.
\<close>

type_synonym stack = "image list list"

record env =
  imread :: "string \<Rightarrow> stack option"
  str_of :: "image \<Rightarrow> string"
  path_exists :: "string \<Rightarrow> bool"
  listdir :: "string \<Rightarrow> string list"
  now :: string

definition np_index :: "'a list \<Rightarrow> int \<Rightarrow> py_error + 'a" where
  "np_index xs i =
     (if 0 \<le> i \<and> i < int (length xs) then Inr (xs ! nat i)
      else if i < 0 \<and> - int (length xs) \<le> i then Inr (xs ! nat (i + int (length xs)))
      else Inl IndexError)"

definition np_plane :: "stack \<Rightarrow> int \<Rightarrow> int \<Rightarrow> py_error + image" where
  "np_plane stack z c =
     (case np_index stack z of
        Inl e \<Rightarrow> Inl e
      | Inr layer \<Rightarrow> np_index layer c)"

definition floor_divide :: "image \<Rightarrow> real \<Rightarrow> image" where
  "floor_divide a d = map (map (\<lambda>v. real_of_int \<lfloor>v / d\<rfloor>)) a"

text \<open>
  \<^verbatim>\<open>s.split(sep)[-1]\<close>, \<^verbatim>\<open>s.split(sep)[0]\<close>, \<^verbatim>\<open>s.endswith(suffix)\<close> and the decimal digits of
  a natural number, as an f-string prints it.
\<close>

definition split_last :: "char \<Rightarrow> string \<Rightarrow> string" where
  "split_last sep s = rev (takeWhile (\<lambda>c. c \<noteq> sep) (rev s))"

definition split_first :: "char \<Rightarrow> string \<Rightarrow> string" where
  "split_first sep s = takeWhile (\<lambda>c. c \<noteq> sep) s"

definition endswith :: "string \<Rightarrow> string \<Rightarrow> bool" where
  "endswith s suffix = (length suffix \<le> length s \<and> drop (length s - length suffix) s = suffix)"

fun str_nat :: "nat \<Rightarrow> string" where
  "str_nat n =
     (if n < 10 then [char_of (48 + n)]
      else str_nat (n div 10) @ [char_of (48 + n mod 10)])"

text \<open>
  Data frames: the empty frame with given columns, the frame of a point list with the
  constant column \<open>z\<close> added, and \<^verbatim>\<open>df.loc[key] = values\<close>, which replaces the row of an
  existing label, appends a row for a new one, and refuses a row whose length is not
  the number of columns. The values of a row are assigned to the columns by position.
  Writing a frame and printing a line extend the world.
\<close>

definition DataFrame :: "string list \<Rightarrow> dataframe" where
  "DataFrame cols = \<lparr> columns = cols, rows = [] \<rparr>"

definition points_frame :: "point list \<Rightarrow> int \<Rightarrow> dataframe" where
  "points_frame pts z =
     \<lparr> columns = [''x'', ''y'', ''z''],
       rows = map (\<lambda>(i, (x, y)). (Pos i, [Finite (real_of_int x), Finite (real_of_int y),
                                          Finite (real_of_int z)]))
                  (enumerate 0 pts) \<rparr>"

definition loc_set :: "dataframe \<Rightarrow> string \<Rightarrow> npfloat list \<Rightarrow> py_error + dataframe" where
  "loc_set df key values =
     (if length values \<noteq> length (columns df) then Inl ValueError
      else case map_of (rows df) (Key key) of
             None \<Rightarrow> Inr (df\<lparr>rows := rows df @ [(Key key, values)]\<rparr>)
           | Some old \<Rightarrow>
               Inr (df\<lparr>rows := map (\<lambda>(l, r). if l = Key key then (l, values) else (l, r))
                                   (rows df)\<rparr>))"

definition to_csv :: "dataframe \<Rightarrow> string \<Rightarrow> bool \<Rightarrow> world \<Rightarrow> world" where
  "to_csv df path index w = w\<lparr>files := files w @ [(path, df, index)]\<rparr>"

definition print :: "string \<Rightarrow> world \<Rightarrow> world" where
  "print s w = w\<lparr>printed := printed w @ [s]\<rparr>"

text \<open>
  The loop over \<^verbatim>\<open>enumerate(channel_names[:-1])\<close> in \<^verbatim>\<open>label\<close>: two sampling sessions per
  channel, then one row in each table, the values in the order in which the source
  lists them.
\<close>

fun label_channels ::
  "cv2 \<Rightarrow> stack \<Rightarrow> int \<Rightarrow> string \<Rightarrow> real \<Rightarrow> (nat \<times> string) list \<Rightarrow> dataframe \<Rightarrow> dataframe \<Rightarrow>
     gui_event list list \<Rightarrow> world \<Rightarrow> ((dataframe \<times> dataframe) \<times> gui_event list list) outcome" where
  "label_channels cv stack mid_layer name sz [] background_df signal_background_df sessions w =
     Returned ((background_df, signal_background_df), sessions) w"
| "label_channels cv stack mid_layer name sz ((j, channel_name) # rest)
       background_df signal_background_df sessions w =
     (case np_plane stack mid_layer (int j) of
        Inl e \<Rightarrow> Raised e w
      | Inr channel \<Rightarrow>
          (let normalized_channel = equalizeHist cv (astype_uint8 (floor_divide channel 256))
           in case get_mean_region channel (Some normalized_channel)
                     (name @ '' Background '' @ channel_name) sz None sessions w of
                Blocked \<Rightarrow> Blocked
              | Raised e w1 \<Rightarrow> Raised e w1
              | Returned ((background, background_center), sessions1) w1 \<Rightarrow>
                  (case get_mean_region channel (Some normalized_channel)
                          (name @ '' Signal + Background '' @ channel_name) sz None sessions1 w1 of
                     Blocked \<Rightarrow> Blocked
                   | Raised e w2 \<Rightarrow> Raised e w2
                   | Returned ((signal_background, signal_background_center), sessions2) w2 \<Rightarrow>
                       (case loc_set background_df channel_name
                               [background, Finite (fst background_center),
                                Finite (snd background_center),
                                Finite (real_of_int mid_layer), Finite sz] of
                          Inl e \<Rightarrow> Raised e w2
                        | Inr background_df1 \<Rightarrow>
                            (case loc_set signal_background_df channel_name
                                    [signal_background, Finite (fst signal_background_center),
                                     Finite (snd signal_background_center),
                                     Finite (real_of_int mid_layer), Finite sz] of
                               Inl e \<Rightarrow> Raised e w2
                             | Inr signal_background_df1 \<Rightarrow>
                                 label_channels cv stack mid_layer name sz rest
                                   background_df1 signal_background_df1 sessions2 w2)))))"

text \<open>
  \<^verbatim>\<open>label(stack_path, out, mid_frac, channel_names, size)\<close>. The nuclear plane becomes an
  array of its own in the store. The source passes that array again where the point
  collector expects the name, so the window title is built from its string form,
  \<open>str_of\<close>. Indexing the empty channel list raises IndexError before the assertion is
  evaluated. The contour goes through \<^verbatim>\<open>np.hstack([contour])\<close> before the table is built:
  for an empty contour that is an array with no column, which \<^verbatim>\<open>pd.DataFrame\<close> refuses
  under the two column names with ValueError, after the contour session and before
  anything is written. The spline is passed as the list it is, and an empty list gives
  the empty table.
\<close>

definition label ::
  "cv2 \<Rightarrow> env \<Rightarrow> string \<Rightarrow> string \<Rightarrow> real \<Rightarrow> string list \<Rightarrow> real \<Rightarrow>
     cv_input list \<Rightarrow> gui_event list list \<Rightarrow> world \<Rightarrow>
     (cv_input list \<times> gui_event list list) outcome" where
  "label cv env stack_path out mid_frac channel_names sz cv_inputs sessions w =
     (case py_last channel_names of
        Inl e \<Rightarrow> Raised e w
      | Inr last_name \<Rightarrow>
     (if last_name \<noteq> ''nuclear''
      then Raised (AssertionError ''The last channel must be nuclear.'') w
      else
     (case imread env (stack_path @ ''.tif'') of
        None \<Rightarrow> Raised (OSError (stack_path @ ''.tif'')) w
      | Some stack \<Rightarrow>
     (let name = split_last CHR ''/'' stack_path;
          mid_layer = py_int (mid_frac * real (length stack))
      in
     (case np_plane stack mid_layer 3 of
        Inl e \<Rightarrow> Raised e w
      | Inr nuclear_plane \<Rightarrow>
     (case alloc nuclear_plane w of (nuclear, w1) \<Rightarrow>
     (case get_contour cv nuclear (str_of env nuclear_plane) cv_inputs w1 of
        Blocked \<Rightarrow> Blocked
      | Raised e w2 \<Rightarrow> Raised e w2
      | Returned (contour, cv_inputs1) w2 \<Rightarrow>
     (if contour = [] then Raised ValueError w2
      else
     (let contour_out = out @ ''/'' @ name @ ''_contour.csv'';
          contour_df = points_frame contour mid_layer;
          w3 = to_csv contour_df contour_out False w2;
          w4 = print (''Contour points saved to '' @ contour_out @ ''.'') w3
      in
     (case get_spline cv nuclear (str_of env nuclear_plane) None cv_inputs1 w4 of
        Blocked \<Rightarrow> Blocked
      | Raised e w5 \<Rightarrow> Raised e w5
      | Returned (spline, cv_inputs2) w5 \<Rightarrow>
     (let spline_out = out @ ''/'' @ name @ ''_spline.csv'';
          spline_df = points_frame spline mid_layer;
          w6 = to_csv spline_df spline_out False w5;
          w7 = print (''Spline points saved to '' @ out @ ''/'' @ name @ ''_spline.csv.'') w6;
          background_out = out @ ''/'' @ name @ ''_background.csv'';
          signal_background_out = out @ ''/'' @ name @ ''_signal_background.csv'';
          cols = [''mean_intensity'', ''window_length'', ''x'', ''y'', ''z'']
      in
     (case label_channels cv stack mid_layer name sz (enumerate 0 (butlast channel_names))
             (DataFrame cols) (DataFrame cols) sessions w7 of
        Blocked \<Rightarrow> Blocked
      | Raised e w8 \<Rightarrow> Raised e w8
      | Returned ((background_df, signal_background_df), sessions1) w8 \<Rightarrow>
     (let w9 = to_csv background_df background_out True w8;
          w10 = print (''Backgound data saved to '' @ background_out @ ''.'') w9;
          w11 = to_csv signal_background_df signal_background_out True w10;
          w12 = print (''Signal + Background data saved to '' @ signal_background_out @ ''.'') w11;
          w13 = print (''Finished labelling '' @ stack_path @ ''.'') w12
      in Returned (cv_inputs2, sessions1) w13)))))))))))))"

text \<open>
  \<^verbatim>\<open>label_folder(folder, mid_frac, channel_names)\<close>; the loop over the stacks first. Each
  stack is labelled with the default size 50.
\<close>

primrec label_each ::
  "(nat \<times> string) list \<Rightarrow> cv2 \<Rightarrow> env \<Rightarrow> string \<Rightarrow> string \<Rightarrow> real \<Rightarrow> string list \<Rightarrow> nat \<Rightarrow>
     cv_input list \<Rightarrow> gui_event list list \<Rightarrow> world \<Rightarrow>
     (cv_input list \<times> gui_event list list) outcome" where
  "label_each [] cv env folder data_out mid_frac channel_names n_stacks cv_inputs sessions w =
     Returned (cv_inputs, sessions) w"
| "label_each (item # rest) cv env folder data_out mid_frac channel_names n_stacks
       cv_inputs sessions w =
     (case item of (i, name) \<Rightarrow>
        (let w1 = print (''Labelling '' @ name @ '' ('' @ str_nat (i + 1) @ ''/'' @
                         str_nat n_stacks @ '').'') w
         in case label cv env (folder @ ''/'' @ name) data_out mid_frac channel_names 50
                   cv_inputs sessions w1 of
              Blocked \<Rightarrow> Blocked
            | Raised e w2 \<Rightarrow> Raised e w2
            | Returned (cv_inputs1, sessions1) w2 \<Rightarrow>
                label_each rest cv env folder data_out mid_frac channel_names n_stacks
                  cv_inputs1 sessions1 w2))"

definition label_folder ::
  "cv2 \<Rightarrow> env \<Rightarrow> string \<Rightarrow> real \<Rightarrow> string list \<Rightarrow> cv_input list \<Rightarrow> gui_event list list \<Rightarrow>
     world \<Rightarrow> (string \<times> cv_input list \<times> gui_event list list) outcome" where
  "label_folder cv env folder mid_frac channel_names cv_inputs sessions w =
     (if \<not> path_exists env folder then Raised (AssertionError (folder @ '' does not exist.'')) w
      else
     (case py_last channel_names of
        Inl e \<Rightarrow> Raised e w
      | Inr last_name \<Rightarrow>
     (if last_name \<noteq> ''nuclear''
      then Raised (AssertionError ''The last channel must be nuclear.'') w
      else
     (let stack_names = map (split_first CHR ''.'')
                          (filter (\<lambda>name. endswith name ''.tif'') (listdir env folder));
          current = now env;
          data_out = ''data/'' @ split_last CHR ''/'' folder @ ''_'' @ current;
          w1 = w\<lparr>dirs := dirs w @ [data_out]\<rparr>
      in case label_each (enumerate 0 stack_names) cv env folder data_out mid_frac
                channel_names (length stack_names) cv_inputs sessions w1 of
           Blocked \<Rightarrow> Blocked
         | Raised e w2 \<Rightarrow> Raised e w2
         | Returned (cv_inputs1, sessions1) w2 \<Rightarrow>
             Returned (data_out, cv_inputs1, sessions1)
               (print ''Finished labelling all images.'' w2)))))"

text \<open>
  A small concrete setting to run the labelling on: a stack of three layers with four
  channels of eight by eight pixels, each plane of one value, in a folder \<open>raw\<close>; a drag of
  the selector of size 6 by its centre handle, one pixel to the right; and the clicks of
  a contour of two points and of a spline of one point, each ended by the key \<open>q\<close>. \<open>world1\<close> is the world after labelling that stack from the empty
  world with window size 6.
\<close>

definition stack0 :: stack where
  "stack0 =
     [[flat 8 8 0, flat 8 8 0, flat 8 8 0, flat 8 8 0],
      [flat 8 8 512, flat 8 8 768, flat 8 8 1024, flat 8 8 256],
      [flat 8 8 0, flat 8 8 0, flat 8 8 0, flat 8 8 0]]"

definition env0 :: env where
  "env0 = \<lparr> imread = (\<lambda>p. if p = ''raw/a.tif'' then Some stack0 else None),
            str_of = (\<lambda>a. ''array''),
            path_exists = (\<lambda>p. p = ''raw''),
            listdir = (\<lambda>p. [''a.tif'', ''notes.txt'']),
            now = ''20240506120000'' \<rparr>"

definition drag0 :: "gui_event list" where
  "drag0 = [Pointer (ButtonPress (Some ''C'') 3 3), Pointer (MotionNotify 4 3), Pointer ButtonRelease]"

definition clicks0 :: "cv_input list" where
  "clicks0 = [left_click (1, 1), left_click (5, 2), WaitKey 113, left_click (2, 6), WaitKey 113]"

definition world1 :: world where
  "world1 =
     (world0\<lparr>heap := [flat 8 8 256, flat 8 8 256, flat 8 8 1, flat 8 8 1, flat 8 8 0,
                       flat 8 8 256, flat 8 8 1, flat 8 8 1, flat 8 8 0],
             shown := [(''Manually input Contour for array'', flat 8 8 1),
                       (''Manually input Contour for array'', flat 8 8 0),
                       (''Manually input Contour for array'', flat 8 8 0),
                       (''Manually input Spline for array'', flat 8 8 1),
                       (''Manually input Spline for array'', flat 8 8 0)],
             figures := [(flat 8 8 2, ''a Background brk''),
                         (flat 8 8 2, ''a Signal + Background brk''),
                         (flat 8 8 3, ''a Background dpp''),
                         (flat 8 8 3, ''a Signal + Background dpp''),
                         (flat 8 8 4, ''a Background pMad''),
                         (flat 8 8 4, ''a Signal + Background pMad'')],
             printed := [''Contour points saved to data/raw_t/a_contour.csv.'',
                         ''Spline points saved to data/raw_t/a_spline.csv.'',
                         ''Backgound data saved to data/raw_t/a_background.csv.'',
                         ''Signal + Background data saved to data/raw_t/a_signal_background.csv.'',
                         ''Finished labelling raw/a.''],
             files := [(''data/raw_t/a_contour.csv'',
                        \<lparr>columns = [''x'', ''y'', ''z''],
                          rows = [(Pos 0, [Finite 1, Finite 1, Finite 1]),
                                  (Pos 1, [Finite 5, Finite 2, Finite 1])]\<rparr>, False),
                       (''data/raw_t/a_spline.csv'',
                        \<lparr>columns = [''x'', ''y'', ''z''],
                          rows = [(Pos 0, [Finite 2, Finite 6, Finite 1])]\<rparr>, False),
                       (''data/raw_t/a_background.csv'',
                        \<lparr>columns = [''mean_intensity'', ''window_length'', ''x'', ''y'', ''z''],
                          rows = [(Key ''brk'', [Finite 512, Finite 4, Finite 3, Finite 1, Finite 6]),
                                  (Key ''dpp'', [Finite 768, Finite 4, Finite 3, Finite 1, Finite 6]),
                                  (Key ''pMad'', [Finite 1024, Finite 4, Finite 3, Finite 1, Finite 6])]\<rparr>,
                        True),
                       (''data/raw_t/a_signal_background.csv'',
                        \<lparr>columns = [''mean_intensity'', ''window_length'', ''x'', ''y'', ''z''],
                          rows = [(Key ''brk'', [Finite 512, Finite 4, Finite 3, Finite 1, Finite 6]),
                                  (Key ''dpp'', [Finite 768, Finite 4, Finite 3, Finite 1, Finite 6]),
                                  (Key ''pMad'', [Finite 1024, Finite 4, Finite 3, Finite 1, Finite 6])]\<rparr>,
                        True)]\<rparr>)"

section \<open>Properties of the selector and the region sampler\<close>

lemma nrows_flat: "nrows (flat h w c) = h"
  by (simp add: nrows_def flat_def)

lemma ncols_flat: "ncols (flat h w c) = (if h = 0 then 0 else w)"
  by (simp add: ncols_def flat_def)

lemma slice_index_le: "slice_index i n \<le> n"
  by (auto simp: slice_index_def)

lemma py_slice_replicate:
  "py_slice lo hi (replicate n x) = replicate (slice_index hi n - slice_index lo n) x"
  using slice_index_le [of hi n] by (simp add: py_slice_def Let_def min_def)

lemma np_slice2_flat:
  "np_slice2 (flat h w c) y1 y2 x1 x2 =
     flat (slice_index y2 h - slice_index y1 h) (slice_index x2 w - slice_index x1 w) c"
  by (simp add: np_slice2_def flat_def py_slice_replicate)

lemma sum_list_replicate_real: "sum_list (replicate n (c::real)) = real n * c"
  by (induction n) (simp_all add: algebra_simps)

lemma concat_flat: "concat (flat h w c) = replicate (h * w) c"
  by (induction h) (simp_all add: flat_def replicate_add)

lemma np_mean_flat: "np_mean (flat h w c) = (if h = 0 \<or> w = 0 then NaN else Finite c)"
  by (simp add: np_mean_def concat_flat sum_list_replicate_real Let_def)

lemma set_extents_fields [simp]:
  "xlim (set_extents self e) = xlim self"
  "ylim (set_extents self e) = ylim self"
  "allow_creation (set_extents self e) = allow_creation self"
  "minspanx (set_extents self e) = minspanx self"
  "minspany (set_extents self e) = minspany self"
  "eventpress (set_extents self e) = eventpress self"
  "active_handle (set_extents self e) = active_handle self"
  "extents_on_press (set_extents self e) = extents_on_press self"
  "selection_completed (set_extents self e) = selection_completed self"
  "visible (set_extents self e) = visible self"
  by (simp_all add: set_extents_def Let_def split: prod.splits)

lemma snapshot_ok_init: "snapshot_ok (FixedSizeRectangleSelector_init xl yl sz sx sy)"
  by (simp add: snapshot_ok_def FixedSizeRectangleSelector_init_def)

lemma snapshot_ok_set_extents: "snapshot_ok self \<Longrightarrow> snapshot_ok (set_extents self e)"
  by (simp add: snapshot_ok_def)

lemma extents_on_press_press:
  "\<not> (eventpress self = None \<and> \<not> on_axes self event) \<Longrightarrow>
     extents_on_press (press self handle event) = Some (extents (press self handle event))"
  by (cases "eventpress self") (auto simp: press_def Let_def)

lemma snapshot_ok_press: "snapshot_ok self \<Longrightarrow> snapshot_ok (press self handle event)"
proof (cases "eventpress self = None \<and> \<not> on_axes self event")
  case True
  assume "snapshot_ok self"
  with True show ?thesis by (simp add: press_def)
next
  case False
  from extents_on_press_press [OF False, of handle]
  have "extents_on_press (press self handle event) \<noteq> None" by simp
  then show ?thesis unfolding snapshot_ok_def by (rule disjI2)
qed

lemma snapshot_ok_release: "snapshot_ok (snd (release self))"
  by (simp add: snapshot_ok_def release_def Let_def split: prod.splits)

lemma snapshot_ok_onmove:
  assumes "snapshot_ok self"
  shows "\<exists>self'. onmove self event = Inr self' \<and> snapshot_ok self'"
proof (cases "eventpress self")
  case None
  with assms show ?thesis by (simp add: onmove_def)
next
  case (Some p)
  with assms obtain e where e: "extents_on_press self = Some e"
    by (auto simp: snapshot_ok_def)
  from Some e assms show ?thesis
    by (cases p; cases e)
      (simp add: onmove_def FixedSizeRectangleSelector_onmove_def Let_def
        snapshot_ok_set_extents)
qed

lemma onselect_sample:
  "onselect img s =
     s\<lparr>means := means s @ [fst (sample_at img (extents (selector s)))],
       centers := centers s @ [snd (sample_at img (extents (selector s)))]\<rparr>"
  by (cases "extents (selector s)") (simp add: onselect_def sample_at_def Let_def)

lemma paired_onselect: "paired img (onselect img s)"
proof -
  have "\<exists>e. sample_at img (extents (selector s)) = sample_at img e" by (rule exI) (rule refl)
  then show ?thesis by (simp add: onselect_sample paired_def del: ex_simps split_paired_Ex)
qed

lemma session_inv_new: "session_inv img (new_session hc name sz)"
  by (simp add: session_inv_def paired_def new_session_def snapshot_ok_init)

lemma session_inv_dispatch:
  assumes "session_inv img s"
  shows "\<exists>s'. dispatch img name sz s ev = Inr s' \<and> session_inv img s'"
proof (cases ev)
  case (KeyPress key)
  with assms show ?thesis
    by (simp add: session_inv_def reset_def paired_def snapshot_ok_set_extents)
next
  case (Pointer pev)
  show ?thesis
  proof (cases pev)
    case (ButtonPress handle x y)
    with Pointer assms show ?thesis
      by (simp add: session_inv_def paired_def snapshot_ok_press)
  next
    case (MotionNotify x y)
    from assms have "snapshot_ok (selector s)" by (simp add: session_inv_def)
    from snapshot_ok_onmove [OF this, of "(x, y)"]
    obtain sel where "onmove (selector s) (x, y) = Inr sel" "snapshot_ok sel" by blast
    with Pointer MotionNotify assms show ?thesis
      by (simp add: session_inv_def paired_def)
  next
    case ButtonRelease
    obtain calls sel where r: "release (selector s) = (calls, sel)"
      by (cases "release (selector s)")
    with snapshot_ok_release [of "selector s"] have ok: "snapshot_ok sel" by simp
    have "paired img (if calls then onselect img s else s)"
      using assms by (simp add: paired_onselect session_inv_def)
    then have "session_inv img ((if calls then onselect img s else s)\<lparr>selector := sel\<rparr>)"
      using ok by (simp add: session_inv_def paired_def)
    with Pointer ButtonRelease r assms show ?thesis by simp
  qed
qed

lemma session_inv_plt_show:
  "session_inv img s \<Longrightarrow>
     \<exists>s'. plt_show img name sz s evs = Inr s' \<and> session_inv img s'"
proof (induction evs arbitrary: s)
  case Nil
  then show ?case by simp
next
  case (Cons ev evs)
  from session_inv_dispatch [OF Cons.prems, of name sz ev]
  obtain s1 where s1: "dispatch img name sz s ev = Inr s1" "session_inv img s1" by blast
  from Cons.IH [OF s1(2)] s1(1) show ?case by simp
qed

lemma plt_show_total:
  "\<exists>s. plt_show img name sz (new_session hc name sz) evs = Inr s \<and> session_inv img s"
  by (rule session_inv_plt_show [OF session_inv_new])

lemma display_Some [simp]: "display img (Some h) = h"
  by (simp add: display_def)

lemma get_mean_region_return:
  assumes "plt_show img name sz (new_session (display img high_contrast) name sz) events = Inr s"
    and "means s \<noteq> []"
  shows "get_mean_region img high_contrast name sz vmax (events # later) w =
           Returned ((last (means s), last (centers s)), later)
             (w\<lparr>figures := figures w @ [(display img high_contrast, name)]\<rparr>)"
proof -
  from plt_show_total [of img name sz "display img high_contrast" events] assms(1)
  have "session_inv img s" by simp
  with assms(2) have "centers s \<noteq> []" by (simp add: session_inv_def paired_def)
  with assms show ?thesis
    by (simp add: display_def py_last_def Let_def split: list.splits)
qed



lemma get_mean_region_world:
  "get_mean_region img hc name sz vmax sessions w \<noteq> Raised e w' \<and>
   (get_mean_region img hc name sz vmax sessions w = Returned r w' \<longrightarrow>
      files w' = files w \<and> heap w' = heap w \<and> dirs w' = dirs w)"
proof (induction sessions arbitrary: hc w)
  case Nil
  show ?case by simp
next
  case (Cons events later)
  from plt_show_total [of img name sz "display img hc" events]
  obtain s where run: "plt_show img name sz (new_session (display img hc) name sz) events = Inr s"
    by blast
  show ?case
  proof (cases "means s = [] \<or> centers s = []")
    case True
    then have "get_mean_region img hc name sz vmax (events # later) w =
        get_mean_region img (Some (display img hc)) name sz vmax later
          (w\<lparr>figures := figures w @ [(display img hc, name)],
             printed := printed w @ [''No region selected.'']\<rparr>)"
      using run by (auto simp: display_def py_last_def Let_def split: list.splits)
    with Cons.IH [of "Some (display img hc)"
        "w\<lparr>figures := figures w @ [(display img hc, name)],
           printed := printed w @ [''No region selected.'']\<rparr>"]
    show ?thesis by simp
  next
    case False
    then show ?thesis
      using run by (auto simp: display_def py_last_def Let_def split: list.splits)
  qed
qed







lemmas session_eval =
  new_session_def FixedSizeRectangleSelector_init_def set_extents_def imshow_xlim_def
  imshow_ylim_def nrows_flat ncols_flat press_def on_axes_def clip_def onmove_def
  FixedSizeRectangleSelector_onmove_def release_def onselect_def reset_def py_int_def
  np_slice2_flat np_mean_flat slice_index_def Let_def

text \<open>
  Claim C1, evaluated on the code. On an image of 100 by 100 pixels with size 50 the
  operator grabs the window by its centre handle at \<open>(25, 25)\<close> and moves the pointer five
  pixels up, to \<open>(25, 20)\<close>. \<^verbatim>\<open>_onmove\<close> assigns the shifted extent \<open>(0, 50, -5, 45)\<close>, and the
  inherited setter clips it to the axes limit \<open>-0.5\<close>: after the move the window is still
  50 wide but only 45.5 high. On an image of 30 by 40 pixels the window of size 50 is
  clipped at construction already, to \<open>(0, 39.5, 0, 29.5)\<close>. The extent does not keep the
  configured size, which the docstring of \<^verbatim>\<open>get_mean_region\<close> asks for (the selector
  should be of a fixed size).
\<close>

theorem drag_to_border_shrinks:
  "plt_show (flat 100 100 0) ''bg'' 50 (new_session (flat 100 100 0) ''bg'' 50)
        [Pointer (ButtonPress (Some ''C'') 25 25), Pointer (MotionNotify 25 20)] =
     Inr \<lparr> selector = \<lparr> xlim = (- (1 / 2), 199 / 2), ylim = (- (1 / 2), 199 / 2),
             extents = (0, 50, - (1 / 2), 45), allow_creation = False,
             minspanx = 5, minspany = 5, eventpress = Some (25, 25),
             active_handle = Some ''C'', extents_on_press = Some (0, 50, 0, 50),
             selection_completed = False, visible = True \<rparr>,
           means = [], centers = [], title = ''bg'' \<rparr> \<and>
   height (0, 50, - (1 / 2), 45) = 91 / 2 \<and>
   extents (selector (new_session (flat 30 40 0) ''bg'' 50)) = (0, 79 / 2, 0, 59 / 2)"
  by (simp add: session_eval height_def)

text \<open>
  Claim C2, evaluated on the code. After a press on the centre handle at \<open>(25, 25)\<close> on an
  image of 100 by 100 pixels with size 50, the snapshot is \<open>(0, 50, 0, 50)\<close>. \<^verbatim>\<open>_onmove\<close> with
  the pointer at \<open>(20, 25)\<close> leaves the extent \<open>(-0.5, 45, 0, 50)\<close>, not the snapshot shifted
  by \<open>(20 - 25, 25 - 25)\<close>, which is \<open>(-5, 45, 0, 50)\<close>: the left bound has moved by 0.5 and the
  right bound by 5, and the width is 45.5 instead of the snapshot's 50. It is the same
  clipping by the inherited setter that breaks the fixed size.
\<close>

theorem onmove_clips_shift:
  "plt_show (flat 100 100 0) ''bg'' 50 (new_session (flat 100 100 0) ''bg'' 50)
        [Pointer (ButtonPress (Some ''C'') 25 25)] =
     Inr \<lparr> selector = \<lparr> xlim = (- (1 / 2), 199 / 2), ylim = (- (1 / 2), 199 / 2),
             extents = (0, 50, 0, 50), allow_creation = False,
             minspanx = 5, minspany = 5, eventpress = Some (25, 25),
             active_handle = Some ''C'', extents_on_press = Some (0, 50, 0, 50),
             selection_completed = False, visible = True \<rparr>,
           means = [], centers = [], title = ''bg'' \<rparr> \<and>
   FixedSizeRectangleSelector_onmove
       \<lparr> xlim = (- (1 / 2), 199 / 2), ylim = (- (1 / 2), 199 / 2),
         extents = (0, 50, 0, 50), allow_creation = False,
         minspanx = 5, minspany = 5, eventpress = Some (25, 25),
         active_handle = Some ''C'', extents_on_press = Some (0, 50, 0, 50),
         selection_completed = False, visible = True \<rparr> (20, 25) =
     Inr \<lparr> xlim = (- (1 / 2), 199 / 2), ylim = (- (1 / 2), 199 / 2),
           extents = (- (1 / 2), 45, 0, 50), allow_creation = False,
           minspanx = 5, minspany = 5, eventpress = Some (25, 25),
           active_handle = Some ''C'', extents_on_press = Some (0, 50, 0, 50),
           selection_completed = False, visible = True \<rparr> \<and>
   shift (20 - 25) (25 - 25) (0, 50, 0, 50) = (- 5, 45, 0, 50) \<and>
   width (- (1 / 2), 45, 0, 50) = 91 / 2"
  by (simp add: session_eval shift_def width_def)




text \<open>
  Claim C5, evaluated on the code: on an image of 100 by 100 pixels of value 42 with
  size 50, one confirmed selection (a press on the centre handle at \<open>(25, 25)\<close> and the
  release) followed by the key \<open>r\<close>. The means are cleared and the extent is back at
  \<open>(0, 50, 0, 50)\<close>, but the center recorded before the reset is still in \<open>centers\<close>. The
  call never returns that center: closing the window now leaves \<open>means\<close> empty, which
  starts the session again with new lists, and a later selection appends its own
  center behind the stale one, which is the one read.
\<close>

theorem reset_leaves_centers:
  "plt_show (flat 100 100 42) ''bg'' 50 (new_session (flat 100 100 42) ''bg'' 50)
        [Pointer (ButtonPress (Some ''C'') 25 25), Pointer ButtonRelease, KeyPress ''r''] =
     Inr \<lparr> selector = \<lparr> xlim = (- (1 / 2), 199 / 2), ylim = (- (1 / 2), 199 / 2),
             extents = (0, 50, 0, 50), allow_creation = False,
             minspanx = 5, minspany = 5, eventpress = None,
             active_handle = None, extents_on_press = None,
             selection_completed = True, visible = True \<rparr>,
           means = [], centers = [(25, 25)],
           title = ''Select a region of interest for bg'' \<rparr>"
  by (simp add: session_eval)

text \<open>
  How the recorded means change with one event: the key \<open>r\<close> empties them, a release that
  calls \<^verbatim>\<open>onselect\<close> (a confirmed selection) appends one mean, nothing else touches them.
  So the means on record when the window closes are those of the selections confirmed
  since the last reset.
\<close>

lemma dispatch_means:
  assumes "dispatch img name sz s ev = Inr s'"
  shows "means s' =
     (case ev of
        KeyPress key \<Rightarrow> if key = ''r'' then [] else means s
      | Pointer ButtonRelease \<Rightarrow>
          if eventpress (selector s) \<noteq> None \<and> fst (release (selector s))
          then means s @ [fst (sample_at img (extents (selector s)))]
          else means s
      | Pointer _ \<Rightarrow> means s)"
proof (cases ev)
  case (KeyPress key)
  with assms show ?thesis by (auto simp: reset_def)
next
  case (Pointer pev)
  show ?thesis
  proof (cases pev)
    case (ButtonPress h x y)
    with Pointer assms show ?thesis by auto
  next
    case (MotionNotify x y)
    with Pointer assms show ?thesis by (auto split: sum.splits)
  next
    case ButtonRelease
    with Pointer assms show ?thesis
      by (auto simp: onselect_sample split: prod.splits if_splits)
  qed
qed



section \<open>Properties of the point collector\<close>

lemma mouse_callback_points:
  "fst (mouse_callback cv wn buf pts event x y flags w) =
     (if event = EVENT_LBUTTONDOWN then pts @ [(x, y)] else pts)"
  by (simp add: mouse_callback_def Let_def)

lemma mouse_callback_heap:
  "length (heap (snd (mouse_callback cv wn buf pts event x y flags w))) = length (heap w) \<and>
   (b \<noteq> buf \<longrightarrow> heap (snd (mouse_callback cv wn buf pts event x y flags w)) ! b = heap w ! b)"
  by (simp add: mouse_callback_def Let_def)

lemma wait_loop_returns:
  "no_quit pre \<Longrightarrow> quits key \<Longrightarrow>
     \<exists>w'. wait_loop cv wn buf pts (pre @ WaitKey key # later) w =
            Returned (pts @ clicks pre, later) w'"
proof (induction pre arbitrary: pts w)
  case Nil
  then show ?case by simp
next
  case (Cons i pre)
  show ?case
  proof (cases i)
    case (Mouse event x y flags)
    obtain pts1 w1 where cb: "mouse_callback cv wn buf pts event x y flags w = (pts1, w1)"
      by (cases "mouse_callback cv wn buf pts event x y flags w")
    with mouse_callback_points [of cv wn buf pts event x y flags w]
    have p: "pts1 = (if event = EVENT_LBUTTONDOWN then pts @ [(x, y)] else pts)" by simp
    from Cons.prems Mouse have "no_quit pre" by simp
    from Cons.IH [OF this Cons.prems(2), of pts1 w1] Mouse cb p show ?thesis by auto
  next
    case (WaitKey k)
    with Cons.prems have nq: "\<not> quits k" "no_quit pre" by simp_all
    from Cons.IH [OF nq(2) Cons.prems(2), of pts w] WaitKey nq(1) show ?thesis by simp
  qed
qed

lemma wait_loop_frame:
  "wait_loop cv wn buf pts inputs w = Returned r w' \<Longrightarrow>
     length (heap w') = length (heap w) \<and> (b \<noteq> buf \<longrightarrow> heap w' ! b = heap w ! b)"
proof (induction cv wn buf pts inputs w rule: wait_loop.induct)
  case (1 cv wn buf pts w)
  then show ?case by simp
next
  case (2 cv wn buf pts event x y flags rest w)
  obtain pts1 w1 where cb: "mouse_callback cv wn buf pts event x y flags w = (pts1, w1)"
    by (cases "mouse_callback cv wn buf pts event x y flags w")
  from "2.prems" cb have "wait_loop cv wn buf pts1 rest w1 = Returned r w'" by simp
  from "2.IH" [OF cb [symmetric] this] mouse_callback_heap [of cv wn buf pts event x y flags w b] cb
  show ?case by simp
next
  case (3 cv wn buf pts key rest w)
  then show ?case by (auto split: if_splits)
qed

lemma wait_loop_no_raise: "wait_loop cv wn buf pts inputs w \<noteq> Raised e w'"
proof (induction cv wn buf pts inputs w rule: wait_loop.induct)
  case (2 cv wn buf pts event x y flags rest w)
  then show ?case
    by (cases "mouse_callback cv wn buf pts event x y flags w") simp
qed simp_all

lemma returned_wait_loop: "returned (wait_loop cv wn buf pts inputs w) = collect pts inputs"
proof (induction inputs arbitrary: pts w)
  case Nil
  show ?case by (simp add: returned_def)
next
  case (Cons i inputs)
  show ?case
  proof (cases i)
    case (Mouse event x y flags)
    obtain p1 w1 where a: "mouse_callback cv wn buf pts event x y flags w = (p1, w1)"
      by (cases "mouse_callback cv wn buf pts event x y flags w")
    with mouse_callback_points [of cv wn buf pts event x y flags w]
    have "p1 = (if event = EVENT_LBUTTONDOWN then pts @ [(x, y)] else pts)" by simp
    with Mouse a Cons.IH [of p1 w1] show ?thesis by simp
  next
    case (WaitKey k)
    with Cons.IH [of pts w] show ?thesis by (simp add: returned_def)
  qed
qed

lemma returned_close:
  "returned (case x of Blocked \<Rightarrow> Blocked | Raised e w7 \<Rightarrow> Raised e w7
             | Returned r w7 \<Rightarrow> Returned r (f w7)) = returned x"
  by (cases x) (simp_all add: returned_def)

lemma returned_get_spline:
  "returned (get_spline cv img name window_name inputs w) = collect [] inputs"
  unfolding get_spline_def alloc_def Let_def
  by (simp add: returned_close returned_wait_loop)

lemma clicks_left_click: "clicks (map left_click ps) = ps"
  by (induction ps) (simp_all add: left_click_def)

lemma no_quit_left_click: "no_quit (map left_click ps)"
  by (induction ps) (simp_all add: left_click_def)

lemma collect_returns:
  "no_quit pre \<Longrightarrow> quits key \<Longrightarrow>
     collect pts (pre @ WaitKey key # later) = Some (pts @ clicks pre, later)"
  by (induction pts pre rule: collect.induct) simp_all

lemma returned_Some: "returned x = Some v \<Longrightarrow> \<exists>w'. x = Returned v w'"
  by (cases x) (simp_all add: returned_def)

lemma get_spline_frame:
  assumes "get_spline cv img name window_name inputs w = Returned r w'"
  shows "length (heap w') = length (heap w) + 4 \<and>
         (\<forall>b < length (heap w). heap w' ! b = heap w ! b)"
proof -
  define n where "n = length (heap w)"
  define w6 where "w6 = w\<lparr>heap := heap w @
      [heap w ! img, true_divide (heap w ! img) 256,
       astype_uint8 (true_divide (heap w ! img) 256),
       equalizeHist cv (astype_uint8 (true_divide (heap w ! img) 256))],
     windows := windows w @ [case window_name of None \<Rightarrow> ''Manually input Spline for '' @ name
                             | Some t \<Rightarrow> t],
     shown := shown w @ [(case window_name of None \<Rightarrow> ''Manually input Spline for '' @ name
                             | Some t \<Rightarrow> t,
                          equalizeHist cv (astype_uint8 (true_divide (heap w ! img) 256)))]\<rparr>"
  define t where "t = (case window_name of None \<Rightarrow> ''Manually input Spline for '' @ name
                             | Some t \<Rightarrow> t)"
  have unfold: "get_spline cv img name window_name inputs w =
      (case wait_loop cv t (n + 3) [] inputs w6 of
         Blocked \<Rightarrow> Blocked
       | Raised e w7 \<Rightarrow> Raised e w7
       | Returned r w7 \<Rightarrow> Returned r (w7\<lparr>windows := []\<rparr>))"
    by (simp add: get_spline_def alloc_def Let_def nth_append w6_def t_def n_def
        numeral_3_eq_3)
  from assms unfold obtain w7 where
    loop: "wait_loop cv t (n + 3) [] inputs w6 = Returned r w7" and w': "w' = w7\<lparr>windows := []\<rparr>"
    by (cases "wait_loop cv t (n + 3) [] inputs w6") simp_all
  have len: "length (heap w7) = length (heap w6)"
    using wait_loop_frame [OF loop] by simp
  have same: "heap w7 ! b = heap w6 ! b" if "b < n" for b
  proof -
    from that have "b \<noteq> n + 3" by simp
    with wait_loop_frame [OF loop, of b] show ?thesis by simp
  qed
  have "heap w6 ! b = heap w ! b" if "b < n" for b
    using that by (simp add: w6_def n_def nth_append)
  with same len show ?thesis
    by (simp add: w' w6_def n_def)
qed

lemma get_spline_returns:
  "no_quit pre \<Longrightarrow> quits key \<Longrightarrow>
     \<exists>w'. get_spline cv img name window_name (pre @ WaitKey key # later) w =
            Returned (clicks pre, later) w'"
proof -
  assume "no_quit pre" "quits key"
  from collect_returns [OF this, of "[]" later]
  have "returned (get_spline cv img name window_name (pre @ WaitKey key # later) w) =
          Some (clicks pre, later)"
    by (simp add: returned_get_spline)
  then show ?thesis by (rule returned_Some)
qed

text \<open>
  Claim C7. Left-button-down events at \<open>p1, ..., pn\<close> followed by a quitting key make
  \<^verbatim>\<open>get_spline\<close> return exactly \<open>[p1, ..., pn]\<close>. More generally, for any inputs \<open>pre\<close> without
  a quitting key (clicks, other mouse events, polls that return another key or none)
  followed by a quitting key, it returns the coordinates of the left-button-down events
  of \<open>pre\<close> in their order, duplicates included, however many there are.
\<close>

theorem get_spline_click_order:
  "clicks (map left_click ps) = ps \<and> no_quit (map left_click ps) \<and>
   (no_quit pre \<and> quits key \<longrightarrow>
      (\<exists>w'. get_spline cv img name window_name (pre @ WaitKey key # later) w =
              Returned (clicks pre, later) w'))"
proof -
  have "\<exists>w'. get_spline cv img name window_name (pre @ WaitKey key # later) w =
              Returned (clicks pre, later) w'" if "no_quit pre" "quits key"
  proof -
    from collect_returns [OF that, of "[]" later]
    have "returned (get_spline cv img name window_name (pre @ WaitKey key # later) w) =
            Some (clicks pre, later)"
      by (simp add: returned_get_spline)
    then show ?thesis by (rule returned_Some)
  qed
  then show ?thesis by (simp add: clicks_left_click no_quit_left_click)
qed

theorem get_spline_click_order_witness:
  "\<exists>w'. get_spline cv0 0 ''embryo'' None
           (map left_click [(1, 1), (5, 5), (9, 1)] @ WaitKey 113 # [WaitKey (- 1)])
           (world0\<lparr>heap := [[[512, 1024]]]\<rparr>) =
         Returned ([(1, 1), (5, 5), (9, 1)], [WaitKey (- 1)]) w'"
proof -
  have q: "quits 113" by (simp add: quits_def)
  from get_spline_click_order [of "[(1, 1), (5, 5), (9, 1)]"
      "map left_click [(1, 1), (5, 5), (9, 1)]" 113 cv0 0 "''embryo''" None "[WaitKey (- 1)]"
      "world0\<lparr>heap := [[[512, 1024]]]\<rparr>"] q
  show ?thesis by (simp only: list.map append.simps) metis
qed

text \<open>
  Claim C9. \<^verbatim>\<open>get_contour(image, name)\<close> is \<^verbatim>\<open>get_spline(image, name)\<close> called with the window
  title \<^verbatim>\<open>"Manually input Contour for <name>"\<close>, with the same outcome and the same world;
  and the value it returns is the one \<^verbatim>\<open>get_spline\<close> returns under its default title.
\<close>

theorem get_contour_is_get_spline:
  "get_contour cv img name inputs w =
     get_spline cv img name (Some (''Manually input Contour for '' @ name)) inputs w \<and>
   returned (get_contour cv img name inputs w) =
     returned (get_spline cv img name None inputs w)"
  by (simp add: get_contour_def returned_get_spline)

text \<open>
  Claim C10. When \<^verbatim>\<open>get_spline\<close> returns, the array at the address of its input image is
  what it was at the call, and so is every array that existed at the call: all drawing
  went into an array allocated by the call.
\<close>

theorem get_spline_keeps_image:
  assumes "get_spline cv img name window_name inputs w = Returned r w'"
    and "img < length (heap w)"
  shows "heap w' ! img = heap w ! img \<and> take (length (heap w)) (heap w') = heap w"
proof -
  from get_spline_frame [OF assms(1)]
  have len: "length (heap w') = length (heap w) + 4"
    and same: "\<And>b. b < length (heap w) \<Longrightarrow> heap w' ! b = heap w ! b" by simp_all
  have "take (length (heap w)) (heap w') = heap w"
    by (rule nth_equalityI) (simp_all add: len same)
  with same [OF assms(2)] show ?thesis by simp
qed

theorem get_spline_keeps_image_witness:
  "get_spline cv0 0 ''embryo'' None [left_click (0, 0), left_click (1, 0), WaitKey 113]
     (world0\<lparr>heap := [[[512, 1024]]]\<rparr>) =
   Returned ([(0, 0), (1, 0)], [])
     (world0\<lparr>heap := [[[512, 1024]], [[512, 1024]], [[2, 4]], [[2, 4]], [[0, 0]]],
             shown := [(''Manually input Spline for embryo'', [[2, 4]]),
                       (''Manually input Spline for embryo'', [[0, 0]]),
                       (''Manually input Spline for embryo'', [[0, 0]])]\<rparr>) \<and>
   heap (world0\<lparr>heap := [[[512, 1024]], [[512, 1024]], [[2, 4]], [[2, 4]], [[0, 0]]],
             shown := [(''Manually input Spline for embryo'', [[2, 4]]),
                       (''Manually input Spline for embryo'', [[0, 0]]),
                       (''Manually input Spline for embryo'', [[0, 0]])]\<rparr>) ! 0 = [[512, 1024]]"
proof -
  have run: "get_spline cv0 0 ''embryo'' None [left_click (0, 0), left_click (1, 0), WaitKey 113]
     (world0\<lparr>heap := [[[512, 1024]]]\<rparr>) =
   Returned ([(0, 0), (1, 0)], [])
     (world0\<lparr>heap := [[[512, 1024]], [[512, 1024]], [[2, 4]], [[2, 4]], [[0, 0]]],
             shown := [(''Manually input Spline for embryo'', [[2, 4]]),
                       (''Manually input Spline for embryo'', [[0, 0]]),
                       (''Manually input Spline for embryo'', [[0, 0]])]\<rparr>)"
    by (simp add: get_spline_def alloc_def world0_def cv0_def left_click_def mouse_callback_def
        EVENT_LBUTTONDOWN_def quits_def true_divide_def astype_uint8_def py_int_def Let_def)
  from get_spline_keeps_image [OF run] run show ?thesis by (simp add: world0_def)
qed

section \<open>Properties of the labelling\<close>

lemma wait_loop_world:
  "wait_loop cv wn buf pts inputs w = Returned r w' \<Longrightarrow>
     files w' = files w \<and> printed w' = printed w \<and> dirs w' = dirs w"
proof (induction cv wn buf pts inputs w rule: wait_loop.induct)
  case (1 cv wn buf pts w)
  then show ?case by simp
next
  case (2 cv wn buf pts event x y flags rest w)
  obtain pts1 w1 where cb: "mouse_callback cv wn buf pts event x y flags w = (pts1, w1)"
    by (cases "mouse_callback cv wn buf pts event x y flags w")
  then have "files w1 = files w \<and> printed w1 = printed w \<and> dirs w1 = dirs w"
    by (auto simp: mouse_callback_def Let_def split: if_splits)
  moreover from "2.prems" cb have "wait_loop cv wn buf pts1 rest w1 = Returned r w'" by simp
  from "2.IH" [OF cb [symmetric] this] have "files w' = files w1 \<and> printed w' = printed w1 \<and> dirs w' = dirs w1" .
  ultimately show ?case by simp
next
  case (3 cv wn buf pts key rest w)
  then show ?case by (auto split: if_splits)
qed

lemma get_spline_world:
  assumes "get_spline cv img name window_name inputs w = Returned r w'"
  shows "files w' = files w \<and> printed w' = printed w \<and> dirs w' = dirs w"
proof -
  from assms obtain t b w6 w7 where
    loop: "wait_loop cv t b [] inputs w6 = Returned r w7" and w': "w' = w7\<lparr>windows := []\<rparr>"
    and w6: "files w6 = files w \<and> printed w6 = printed w \<and> dirs w6 = dirs w"
    by (auto simp: get_spline_def alloc_def Let_def split: outcome.splits)
  from wait_loop_world [OF loop] w6 w' show ?thesis by simp
qed

lemma get_spline_no_raise: "get_spline cv img name window_name inputs w \<noteq> Raised e w'"
  by (auto simp: get_spline_def alloc_def Let_def wait_loop_no_raise split: outcome.splits)

lemma loc_set_error: "loc_set df k values = Inl e \<Longrightarrow> e = ValueError"
  by (auto simp: loc_set_def split: if_splits option.splits)

lemma np_plane_error: "np_plane stack z c = Inl e \<Longrightarrow> e = IndexError"
  by (auto simp: np_plane_def np_index_def Let_def split: sum.splits if_splits)

lemma label_channels_error:
  "label_channels cv stack mid_layer name sz items b s sessions w = Raised e w' \<Longrightarrow>
     e = IndexError \<or> e = ValueError"
proof (induction items arbitrary: b s sessions w)
  case Nil
  then show ?case by simp
next
  case (Cons item items)
  obtain j channel_name where item: "item = (j, channel_name)" by (cases item)
  show ?case
    using Cons.prems Cons.IH item
    by (auto simp: Let_def get_mean_region_world dest: np_plane_error loc_set_error
        split: sum.splits outcome.splits prod.splits)
qed

lemma get_contour_world:
  "get_contour cv img name inputs w = Returned r w' \<Longrightarrow>
     files w' = files w \<and> printed w' = printed w \<and> dirs w' = dirs w"
  unfolding get_contour_def by (rule get_spline_world)

lemma get_contour_no_raise: "get_contour cv img name inputs w \<noteq> Raised e w'"
  unfolding get_contour_def by (rule get_spline_no_raise)

lemma label_assert:
  "channel_names \<noteq> [] \<Longrightarrow> last channel_names \<noteq> ''nuclear'' \<Longrightarrow>
     label cv env stack_path out mid_frac channel_names sz cv_inputs sessions w =
       Raised (AssertionError ''The last channel must be nuclear.'') w"
  by (cases channel_names) (simp_all add: label_def py_last_def)

lemma label_no_channels:
  "label cv env stack_path out mid_frac [] sz cv_inputs sessions w = Raised IndexError w"
  by (simp add: label_def py_last_def)

lemma label_raises:
  assumes "label cv env stack_path out mid_frac channel_names sz cv_inputs sessions w =
             Raised e w'"
    and "channel_names \<noteq> []" and "last channel_names = ''nuclear''"
  shows "e = IndexError \<or> e = ValueError \<or> e = OSError (stack_path @ ''.tif'')"
  using assms
  unfolding label_def Let_def alloc_def py_last_def
  by (auto simp: get_contour_no_raise get_spline_no_raise
      simp del: label_channels.simps
      dest: np_plane_error label_channels_error
      split: list.splits sum.splits option.splits outcome.splits prod.splits if_splits)

lemma label_each_raises:
  "label_each items cv env folder data_out mid_frac channel_names n_stacks cv_inputs sessions w =
     Raised e w' \<Longrightarrow> channel_names \<noteq> [] \<Longrightarrow> last channel_names = ''nuclear'' \<Longrightarrow>
   e \<noteq> AssertionError m"
proof (induction items arbitrary: cv_inputs sessions w)
  case Nil
  then show ?case by simp
next
  case (Cons item items)
  obtain i name where item: "item = (i, name)" by (cases item)
  let ?w1 = "print (''Labelling '' @ name @ '' ('' @ str_nat (i + 1) @ ''/'' @
                         str_nat n_stacks @ '').'') w"
  show ?case
  proof (cases "label cv env (folder @ ''/'' @ name) data_out mid_frac channel_names 50
                   cv_inputs sessions ?w1")
    case Blocked
    with Cons.prems(1) item show ?thesis by (simp add: Let_def)
  next
    case (Raised e2 w2)
    with Cons.prems(1) item have "e = e2" by (simp add: Let_def)
    with label_raises [OF Raised Cons.prems(2,3)] show ?thesis by auto
  next
    case (Returned r w2)
    obtain c1 s1 where "r = (c1, s1)" by (cases r)
    with Returned Cons.prems(1) item
    have "label_each items cv env folder data_out mid_frac channel_names n_stacks c1 s1 w2 =
            Raised e w'" by (simp add: Let_def)
    from Cons.IH [OF this Cons.prems(2,3)] show ?thesis .
  qed
qed

lemma label_empty_contour:
  assumes "channel_names \<noteq> []" and "last channel_names = ''nuclear''"
    and "imread env (stack_path @ ''.tif'') = Some stack"
    and "np_plane stack (py_int (mid_frac * real (length stack))) 3 = Inr nuclear_plane"
    and "get_contour cv (length (heap w)) (str_of env nuclear_plane) cv_inputs
           (w\<lparr>heap := heap w @ [nuclear_plane]\<rparr>) = Returned ([], rest) w2"
  shows "label cv env stack_path out mid_frac channel_names sz cv_inputs sessions w =
           Raised ValueError w2"
proof -
  from assms(1,2) have "py_last channel_names = Inr ''nuclear''"
    by (cases channel_names) (simp_all add: py_last_def)
  with assms(3-5) show ?thesis by (simp add: label_def alloc_def Let_def)
qed

lemma map_map_flat: "map (map f) (flat h w c) = flat h w (f c)"
  by (simp add: flat_def)

lemma drag0_session:
  "plt_show (flat 8 8 c) name 6 (new_session (flat 8 8 d) name 6) drag0 =
     Inr \<lparr> selector = \<lparr> xlim = (- (1 / 2), 15 / 2), ylim = (- (1 / 2), 15 / 2),
              extents = (1, 7, 0, 6), allow_creation = False,
              minspanx = 5, minspany = 5, eventpress = None,
              active_handle = None, extents_on_press = None,
              selection_completed = True, visible = True \<rparr>,
           means = [Finite c], centers = [(4, 3)], title = name \<rparr>"
  by (simp add: drag0_def new_session_def FixedSizeRectangleSelector_init_def set_extents_def
      imshow_xlim_def imshow_ylim_def nrows_flat ncols_flat press_def on_axes_def clip_def
      onmove_def FixedSizeRectangleSelector_onmove_def release_def onselect_def py_int_def
      np_slice2_flat np_mean_flat slice_index_def Let_def)

lemma drag0_region:
  "get_mean_region (flat 8 8 c) (Some (flat 8 8 d)) name 6 None (drag0 # later) w =
     Returned ((Finite c, 4, 3), later) (w\<lparr>figures := figures w @ [(flat 8 8 d, name)]\<rparr>)"
  using get_mean_region_return [of "flat 8 8 c" name 6 "Some (flat 8 8 d)" drag0 _ None later w]
    drag0_session [of c name d]
  by simp

lemma label_run:
  "label cv0 env0 ''raw/a'' ''data/raw_t'' (1/2) [''brk'', ''dpp'', ''pMad'', ''nuclear''] 6
     clicks0 [drag0, drag0, drag0, drag0, drag0, drag0] world0 =
   Returned ([], []) world1"
  by (simp del: get_mean_region.simps
      add: label_def py_last_def env0_def stack0_def cv0_def world0_def world1_def clicks0_def
      split_last_def py_int_def np_plane_def np_index_def alloc_def get_contour_def
      get_spline_def true_divide_def astype_uint8_def floor_divide_def map_map_flat
      left_click_def mouse_callback_def EVENT_LBUTTONDOWN_def quits_def points_frame_def
      enumerate_eq_zip upt_rec to_csv_def print_def DataFrame_def drag0_region loc_set_def
      Let_def)

text \<open>
  Claim C6, evaluated on the code: labelling the stack \<open>stack0\<close> with the four default
  channel names, middle fraction one half (layer 1) and window size 6; the operator
  clicks a contour and a spline and, in each of the six sampling sessions, drags the
  window one pixel to the right and releases, so that every recorded center is
  \<open>(4, 3)\<close>. The call returns, and both channel tables have the five documented columns
  and the three rows \<open>brk\<close>, \<open>dpp\<close>, \<open>pMad\<close>. In every row, however, the values stand in the
  order mean, center x, center y, layer, size: the center's x coordinate 4 is under
  \<open>window_length\<close>, its y coordinate 3 under \<open>x\<close>, the layer 1 under \<open>y\<close> and the window size 6
  under \<open>z\<close>, while the contour and spline tables of the same call have the layer 1 under
  \<open>z\<close>.
\<close>

theorem label_rows_shifted:
  "\<exists>w. label cv0 env0 ''raw/a'' ''data/raw_t'' (1/2) [''brk'', ''dpp'', ''pMad'', ''nuclear''] 6
          clicks0 [drag0, drag0, drag0, drag0, drag0, drag0] world0 = Returned ([], []) w \<and>
     files w =
       [(''data/raw_t/a_contour.csv'',
         \<lparr>columns = [''x'', ''y'', ''z''],
           rows = [(Pos 0, [Finite 1, Finite 1, Finite 1]),
                   (Pos 1, [Finite 5, Finite 2, Finite 1])]\<rparr>, False),
        (''data/raw_t/a_spline.csv'',
         \<lparr>columns = [''x'', ''y'', ''z''],
           rows = [(Pos 0, [Finite 2, Finite 6, Finite 1])]\<rparr>, False),
        (''data/raw_t/a_background.csv'',
         \<lparr>columns = [''mean_intensity'', ''window_length'', ''x'', ''y'', ''z''],
           rows = [(Key ''brk'', [Finite 512, Finite 4, Finite 3, Finite 1, Finite 6]),
                   (Key ''dpp'', [Finite 768, Finite 4, Finite 3, Finite 1, Finite 6]),
                   (Key ''pMad'', [Finite 1024, Finite 4, Finite 3, Finite 1, Finite 6])]\<rparr>,
         True),
        (''data/raw_t/a_signal_background.csv'',
         \<lparr>columns = [''mean_intensity'', ''window_length'', ''x'', ''y'', ''z''],
           rows = [(Key ''brk'', [Finite 512, Finite 4, Finite 3, Finite 1, Finite 6]),
                   (Key ''dpp'', [Finite 768, Finite 4, Finite 3, Finite 1, Finite 6]),
                   (Key ''pMad'', [Finite 1024, Finite 4, Finite 3, Finite 1, Finite 6])]\<rparr>,
         True)]"
  using label_run by (simp add: world1_def world0_def)


text \<open>
  Claim C8. If the last channel name is not \<open>nuclear\<close>, \<^verbatim>\<open>label\<close> raises the assertion in
  the world it was called in (nothing read, shown, printed or written), and so does
  \<^verbatim>\<open>label_folder\<close> on an existing folder; on a folder that does not exist \<^verbatim>\<open>label_folder\<close>
  raises the folder assertion, again in the unchanged world. If the last name is
  \<open>nuclear\<close> (and the folder exists), neither function raises any assertion.
\<close>

theorem configuration_assertions:
  "(channel_names \<noteq> [] \<and> last channel_names \<noteq> ''nuclear'' \<longrightarrow>
      label cv env stack_path out mid_frac channel_names sz cv_inputs sessions w =
        Raised (AssertionError ''The last channel must be nuclear.'') w \<and>
      (path_exists env folder \<longrightarrow>
         label_folder cv env folder mid_frac channel_names cv_inputs sessions w =
           Raised (AssertionError ''The last channel must be nuclear.'') w)) \<and>
   (\<not> path_exists env folder \<longrightarrow>
      label_folder cv env folder mid_frac channel_names cv_inputs sessions w =
        Raised (AssertionError (folder @ '' does not exist.'')) w) \<and>
   (channel_names \<noteq> [] \<and> last channel_names = ''nuclear'' \<longrightarrow>
      label cv env stack_path out mid_frac channel_names sz cv_inputs sessions w \<noteq>
        Raised (AssertionError m) w' \<and>
      (path_exists env folder \<longrightarrow>
         label_folder cv env folder mid_frac channel_names cv_inputs sessions w \<noteq>
           Raised (AssertionError m) w'))"
proof -
  have a: "label_folder cv env folder mid_frac channel_names cv_inputs sessions w =
           Raised (AssertionError ''The last channel must be nuclear.'') w"
    if "channel_names \<noteq> []" "last channel_names \<noteq> ''nuclear''" "path_exists env folder"
    using that by (cases channel_names) (simp_all add: label_folder_def py_last_def)
  have b: "label_folder cv env folder mid_frac channel_names cv_inputs sessions w =
        Raised (AssertionError (folder @ '' does not exist.'')) w"
    if "\<not> path_exists env folder"
    using that by (simp add: label_folder_def)
  have c: "label cv env stack_path out mid_frac channel_names sz cv_inputs sessions w \<noteq>
        Raised (AssertionError m) w'"
    if "channel_names \<noteq> []" "last channel_names = ''nuclear''"
  proof
    assume "label cv env stack_path out mid_frac channel_names sz cv_inputs sessions w =
        Raised (AssertionError m) w'"
    from label_raises [OF this that] show False by simp
  qed
  have d: "label_folder cv env folder mid_frac channel_names cv_inputs sessions w \<noteq>
           Raised (AssertionError m) w'"
    if ne: "channel_names \<noteq> []" and l: "last channel_names = ''nuclear''"
      and "path_exists env folder"
  proof
    assume r: "label_folder cv env folder mid_frac channel_names cv_inputs sessions w =
           Raised (AssertionError m) w'"
    from ne l have pl: "py_last channel_names = Inr ''nuclear''"
      by (cases channel_names) (simp_all add: py_last_def)
    from r that pl obtain items data_out n w1 where
      "label_each items cv env folder data_out mid_frac channel_names n cv_inputs sessions w1 =
         Raised (AssertionError m) w'"
      by (auto simp: label_folder_def Let_def split: outcome.splits prod.splits)
    from label_each_raises [OF this ne l, of m] show False by simp
  qed
  from a b c d label_assert [of channel_names cv env stack_path out mid_frac sz cv_inputs sessions w]
  show ?thesis by blast
qed

theorem configuration_assertions_witness:
  "label cv0 env0 ''raw/a'' ''data/raw_t'' (1/2) [''brk'', ''nuclear'', ''dpp''] 50
     clicks0 [drag0] world0 =
     Raised (AssertionError ''The last channel must be nuclear.'') world0 \<and>
   label_folder cv0 env0 ''raw'' (1/2) [''brk'', ''nuclear'', ''dpp''] clicks0 [drag0] world0 =
     Raised (AssertionError ''The last channel must be nuclear.'') world0 \<and>
   label_folder cv0 env0 ''gone'' (1/2) [''brk'', ''nuclear''] clicks0 [drag0] world0 =
     Raised (AssertionError (''gone'' @ '' does not exist.'')) world0 \<and>
   label cv0 env0 ''raw/a'' ''data/raw_t'' (1/2) [''brk'', ''nuclear''] 50
     clicks0 [drag0] world0 \<noteq> Raised (AssertionError ''The last channel must be nuclear.'') world0 \<and>
   label_folder cv0 env0 ''raw'' (1/2) [''brk'', ''nuclear''] clicks0 [drag0] world0 \<noteq>
     Raised (AssertionError ''The last channel must be nuclear.'') world0"
proof -
  have ex: "path_exists env0 ''raw''" and nex: "\<not> path_exists env0 ''gone''"
    by (simp_all add: env0_def)
  have bad: "[''brk'', ''nuclear'', ''dpp''] \<noteq> [] \<and> last [''brk'', ''nuclear'', ''dpp''] \<noteq> ''nuclear''"
    by simp
  have good: "[''brk'', ''nuclear''] \<noteq> [] \<and> last [''brk'', ''nuclear''] = ''nuclear''"
    by simp
  from configuration_assertions [of "[''brk'', ''nuclear'', ''dpp'']" cv0 env0 "''raw/a''"
      "''data/raw_t''" "1/2" 50 clicks0 "[drag0]" world0 "''raw''"] bad ex
  have a: "label cv0 env0 ''raw/a'' ''data/raw_t'' (1/2) [''brk'', ''nuclear'', ''dpp''] 50
     clicks0 [drag0] world0 =
     Raised (AssertionError ''The last channel must be nuclear.'') world0 \<and>
   label_folder cv0 env0 ''raw'' (1/2) [''brk'', ''nuclear'', ''dpp''] clicks0 [drag0] world0 =
     Raised (AssertionError ''The last channel must be nuclear.'') world0"
    by blast
  from configuration_assertions [of "[''brk'', ''nuclear'']" cv0 env0 "''raw/a''"
      "''data/raw_t''" "1/2" 50 clicks0 "[drag0]" world0 "''gone''"] nex
  have b: "label_folder cv0 env0 ''gone'' (1/2) [''brk'', ''nuclear''] clicks0 [drag0] world0 =
     Raised (AssertionError (''gone'' @ '' does not exist.'')) world0"
    by blast
  from configuration_assertions [of "[''brk'', ''nuclear'']" cv0 env0 "''raw/a''"
      "''data/raw_t''" "1/2" 50 clicks0 "[drag0]" world0 "''raw''"
      "''The last channel must be nuclear.''" world0] good ex
  have c: "label cv0 env0 ''raw/a'' ''data/raw_t'' (1/2) [''brk'', ''nuclear''] 50
     clicks0 [drag0] world0 \<noteq> Raised (AssertionError ''The last channel must be nuclear.'') world0 \<and>
   label_folder cv0 env0 ''raw'' (1/2) [''brk'', ''nuclear''] clicks0 [drag0] world0 \<noteq>
     Raised (AssertionError ''The last channel must be nuclear.'') world0"
    by blast
  from a b c show ?thesis by blast
qed

end
